theory Spec2Isabelle
  imports Main
begin

section \<open>The script \<open>scripts/qgis_risk_assessment.py\<close>\<close>

text \<open>
  The script has three parts: \<open>initialize_qgis\<close> (a \<open>try\<close> block around the calls into the
  PyQGIS library, with two \<open>except\<close> handlers), \<open>run_risk_assessment\<close> (seven \<open>print\<close>
  statements) and the main block. Everything it does is an effect: text written to the
  standard output and calls into the external library. The model passes a world
  explicitly; every call into the library and every line that a \<open>print\<close> writes is
  appended to a trace, in the order of execution. A \<open>print\<close> raises when the standard
  output cannot encode its text. What a library call does is not in the repository, so its outcome
  (completing or raising) and its effect on the file system are parameters of the model: a
  record \<open>qgis_env\<close> over which every theorem quantifies. The two imports at the top of the
  file, \<open>os\<close> and \<open>sys\<close>, are of the standard library and have no part in the model.
\<close>

subsection \<open>Exceptions\<close>

text \<open>
  The handlers of \<open>initialize_qgis\<close> distinguish three kinds of raised object: an instance of
  \<open>ImportError\<close> (the class itself or a subclass such as \<open>ModuleNotFoundError\<close>), an instance
  of \<open>Exception\<close> that is not an \<open>ImportError\<close>, and a \<open>BaseException\<close> that is not an
  \<open>Exception\<close> (\<open>KeyboardInterrupt\<close>, \<open>SystemExit\<close>). The second handler formats the
  exception into its message, which calls \<open>str(e)\<close>: \<open>PyExc k s\<close> is an exception of kind
  \<open>k\<close> whose text is \<open>s\<close>, and \<open>Unprintable k x\<close> one of kind \<open>k\<close> whose \<open>__str__\<close> raises
  \<open>x\<close>.
\<close>

datatype exc_kind = ImportError | OtherException | NonException

datatype py_exc = PyExc exc_kind string | Unprintable exc_kind py_exc

fun exc_class :: "py_exc \<Rightarrow> exc_kind" where
  "exc_class (PyExc k s) = k"
| "exc_class (Unprintable k x) = k"

fun py_str :: "py_exc \<Rightarrow> py_exc + string" where
  "py_str (PyExc k s) = Inr s"
| "py_str (Unprintable k x) = Inl x"

definition is_ImportError :: "py_exc \<Rightarrow> bool" where
  "is_ImportError e = (exc_class e = ImportError)"

definition is_Exception :: "py_exc \<Rightarrow> bool" where
  "is_Exception e = (exc_class e = ImportError \<or> exc_class e = OtherException)"

subsection \<open>The world: trace, module search path, file system, standard output\<close>

datatype qgs_app = QgsApp nat

datatype import_stmt = Import string | FromImport string string

datatype event =
    Print string
  | Imported import_stmt
  | SetPrefixPath string bool
  | NewQgsApplication "string list" bool
  | InitQgis qgs_app
  | ProcessingInitialize
  | ExitQgis qgs_app

text \<open>
  Text is modelled as the bytes of its UTF-8 encoding, as the source file holds it. The
  standard output has an encoding of its own: \<open>stdout_encodes\<close> says which characters
  beyond ASCII, each given as its UTF-8 bytes, that encoding has, and \<open>stdout_error_str\<close>
  is the text of the \<open>UnicodeEncodeError\<close> raised for a text that it cannot encode.
\<close>

record world =
  trace :: "event list"
  sys_path :: "string list"
  files :: "string \<Rightarrow> string option"
  stdout_encodes :: "string \<Rightarrow> bool"
  stdout_error_str :: "string \<Rightarrow> string"

text \<open>
  The outcome of each call into the library: \<open>None\<close> when it completes, \<open>Some e\<close> when it
  raises \<open>e\<close>. An import is resolved against the module search path of the moment.
  \<open>library_effect\<close> is what a library call does to the file system.
\<close>

record qgis_env =
  import_outcome :: "string list \<Rightarrow> import_stmt \<Rightarrow> py_exc option"
  setPrefixPath_outcome :: "string \<Rightarrow> bool \<Rightarrow> py_exc option"
  QgsApplication_outcome :: "py_exc + qgs_app"
  initQgis_outcome :: "qgs_app \<Rightarrow> py_exc option"
  Processing_initialize_outcome :: "py_exc option"
  exitQgis_outcome :: "qgs_app \<Rightarrow> py_exc option"
  library_effect :: "event \<Rightarrow> (string \<Rightarrow> string option) \<Rightarrow> (string \<Rightarrow> string option)"

subsection \<open>Statements that may raise\<close>

type_synonym 'a py = "world \<Rightarrow> (py_exc + 'a) \<times> world"

definition py_return :: "'a \<Rightarrow> 'a py" where
  "py_return x w = (Inr x, w)"

definition py_bind :: "'a py \<Rightarrow> ('a \<Rightarrow> 'b py) \<Rightarrow> 'b py" where
  "py_bind m f w = (case m w of (Inl e, w') \<Rightarrow> (Inl e, w') | (Inr x, w') \<Rightarrow> f x w')"

text \<open>
  The characters of a text: a byte that is not a continuation byte, with the continuation
  bytes that follow it. A text can be written to the standard output when each of its
  characters is ASCII or in the encoding of the standard output.
\<close>

definition is_continuation :: "char \<Rightarrow> bool" where
  "is_continuation c = (128 \<le> (of_char c :: nat) \<and> (of_char c :: nat) < 192)"

function utf8_chars :: "string \<Rightarrow> string list" where
  "utf8_chars [] = []"
| "utf8_chars (c # cs) =
     (c # takeWhile is_continuation cs) # utf8_chars (dropWhile is_continuation cs)"
  by pat_completeness auto
termination
  by (relation "measure length") (simp_all add: length_dropWhile_le le_imp_less_Suc)

definition ascii_char :: "string \<Rightarrow> bool" where
  "ascii_char ch = (case ch of [c] \<Rightarrow> (of_char c :: nat) < 128 | _ \<Rightarrow> False)"

definition encodable :: "world \<Rightarrow> string \<Rightarrow> bool" where
  "encodable w s = list_all (\<lambda>ch. ascii_char ch \<or> stdout_encodes w ch) (utf8_chars s)"

definition UnicodeEncodeError :: "world \<Rightarrow> string \<Rightarrow> py_exc" where
  "UnicodeEncodeError w s = PyExc OtherException (stdout_error_str w s)"

text \<open>
  \<open>print(s)\<close> writes \<open>s\<close> and a newline to the standard output. When the standard output
  cannot encode \<open>s\<close>, nothing is written and \<open>print\<close> raises a \<open>UnicodeEncodeError\<close>, which
  is an \<open>Exception\<close>. Failures of the device itself (a full disk, a closed pipe) are not
  modelled.
\<close>

definition print :: "string \<Rightarrow> unit py" where
  "print s w =
     (if encodable w s then (Inr (), w\<lparr>trace := trace w @ [Print (s @ [CHR 0x0A])]\<rparr>)
      else (Inl (UnicodeEncodeError w s), w))"

definition library_call :: "qgis_env \<Rightarrow> event \<Rightarrow> py_exc option \<Rightarrow> unit py" where
  "library_call env ev outcome w =
     (let w' = w\<lparr>trace := trace w @ [ev], files := library_effect env ev (files w)\<rparr>
      in case outcome of None \<Rightarrow> (Inr (), w') | Some e \<Rightarrow> (Inl e, w'))"

definition py_import :: "qgis_env \<Rightarrow> import_stmt \<Rightarrow> unit py" where
  "py_import env stmt w =
     library_call env (Imported stmt) (import_outcome env (sys_path w) stmt) w"

definition setPrefixPath :: "qgis_env \<Rightarrow> string \<Rightarrow> bool \<Rightarrow> unit py" where
  "setPrefixPath env p useDefaultPaths =
     library_call env (SetPrefixPath p useDefaultPaths) (setPrefixPath_outcome env p useDefaultPaths)"

definition QgsApplication :: "qgis_env \<Rightarrow> string list \<Rightarrow> bool \<Rightarrow> qgs_app py" where
  "QgsApplication env argv gui w =
     (let ev = NewQgsApplication argv gui;
          w' = w\<lparr>trace := trace w @ [ev], files := library_effect env ev (files w)\<rparr>
      in case QgsApplication_outcome env of Inl e \<Rightarrow> (Inl e, w') | Inr qgs \<Rightarrow> (Inr qgs, w'))"

definition initQgis :: "qgis_env \<Rightarrow> qgs_app \<Rightarrow> unit py" where
  "initQgis env qgs = library_call env (InitQgis qgs) (initQgis_outcome env qgs)"

definition Processing_initialize :: "qgis_env \<Rightarrow> unit py" where
  "Processing_initialize env =
     library_call env ProcessingInitialize (Processing_initialize_outcome env)"

definition exitQgis :: "qgis_env \<Rightarrow> qgs_app \<Rightarrow> unit py" where
  "exitQgis env qgs = library_call env (ExitQgis qgs) (exitQgis_outcome env qgs)"

definition sys_path_append :: "string \<Rightarrow> unit py" where
  "sys_path_append p w = (Inr (), w\<lparr>sys_path := sys_path w @ [p]\<rparr>)"

text \<open>\<open>os.path.join\<close> of two components, as \<open>posixpath\<close> computes it.\<close>

definition os_path_join :: "string \<Rightarrow> string \<Rightarrow> string" where
  "os_path_join a b =
     (if b \<noteq> [] \<and> hd b = CHR ''/'' then b
      else if a = [] \<or> last a = CHR ''/'' then a @ b
      else a @ ''/'' @ b)"

subsection \<open>The script\<close>

definition QGIS_INSTALL_PATH :: string where
  "QGIS_INSTALL_PATH = ''/usr''"

text \<open>The two non-ASCII characters of the messages, U+2705 and U+274C, in UTF-8.\<close>

definition check_mark :: string where
  "check_mark = [CHR 0xE2, CHR 0x9C, CHR 0x85]"

definition cross_mark :: string where
  "cross_mark = [CHR 0xE2, CHR 0x9D, CHR 0x8C]"

text \<open>The body of the \<open>try\<close> block of \<open>initialize_qgis\<close>, statement by statement.\<close>

definition try_body :: "qgis_env \<Rightarrow> qgs_app option py" where
  "try_body env =
     py_bind (py_import env (FromImport ''qgis.core'' ''QgsApplication'')) (\<lambda>_.
     py_bind (py_import env (FromImport ''qgis.analysis'' ''QgsRasterCalculator'')) (\<lambda>_.
     py_bind (setPrefixPath env QGIS_INSTALL_PATH True) (\<lambda>_.
     py_bind (QgsApplication env [] False) (\<lambda>qgs.
     py_bind (initQgis env qgs) (\<lambda>_.
     py_bind (sys_path_append (os_path_join QGIS_INSTALL_PATH ''apps/qgis/python/plugins'')) (\<lambda>_.
     py_bind (py_import env (Import ''processing'')) (\<lambda>_.
     py_bind (py_import env (FromImport ''processing.core.Processing'' ''Processing'')) (\<lambda>_.
     py_bind (Processing_initialize env) (\<lambda>_.
     py_bind (print (check_mark @ '' QGIS environment initialized successfully.'')) (\<lambda>_.
     py_return (Some qgs)))))))))))"

text \<open>
  The \<open>try\<close> statement: the first handler whose class matches runs; an exception that no
  handler matches propagates to the caller, and so does one that is raised inside a
  handler, by a \<open>print\<close> or by \<open>str(e)\<close>.
\<close>

definition initialize_qgis :: "qgis_env \<Rightarrow> qgs_app option py" where
  "initialize_qgis env w =
     (case try_body env w of
        (Inr r, w') \<Rightarrow> (Inr r, w')
      | (Inl e, w') \<Rightarrow>
          if is_ImportError e then
            py_bind (print (cross_mark @ '' Error: PyQGIS libraries not found. Is QGIS_INSTALL_PATH correct?'')) (\<lambda>_.
            py_bind (print ''   This script cannot run without a local QGIS installation.'') (\<lambda>_.
            py_return None)) w'
          else if is_Exception e then
            (case py_str e of
               Inl x \<Rightarrow> (Inl x, w')
             | Inr s \<Rightarrow>
                 py_bind (print (cross_mark @ '' An unexpected error occurred during QGIS initialization: '' @ s)) (\<lambda>_.
                 py_return None) w')
          else (Inl e, w'))"

definition run_risk_assessment :: "unit py" where
  "run_risk_assessment =
     py_bind (print (CHR 0x0A # ''--- Starting Automated Risk Assessment ---'')) (\<lambda>_.
     py_bind (print (CHR 0x0A # ''Step 1: Loading spatial layers... (Placeholder)'')) (\<lambda>_.
     py_bind (print ''Step 2: Standardizing layers by clipping... (Placeholder)'') (\<lambda>_.
     py_bind (print ''Step 3: Normalizing layers to 0-1 scale... (Placeholder)'') (\<lambda>_.
     py_bind (print ''Step 4: Applying Weighted Linear Combination... (Placeholder)'') (\<lambda>_.
     py_bind (print (CHR 0x0A # check_mark @ '' Risk assessment workflow complete (simulation).'')) (\<lambda>_.
     print ''Final risk map would be saved in the output directory.''))))))"

text \<open>
  The main block. \<open>if qgs_instance:\<close> tests the truth value of the result: \<open>None\<close> is
  false, and an application object, whose class defines neither \<open>__bool__\<close> nor
  \<open>__len__\<close>, is true.
\<close>

definition banner :: string where
  "banner = ''Running PyQGIS Script for '' @ [CHR 0x27] @ ''The Digital Epidemic'' @ [CHR 0x27]"

definition main :: "qgis_env \<Rightarrow> unit py" where
  "main env =
     py_bind (print banner) (\<lambda>_.
     py_bind (initialize_qgis env) (\<lambda>qgs_instance.
       case qgs_instance of
         Some qgs \<Rightarrow>
           py_bind run_risk_assessment (\<lambda>_.
           py_bind (exitQgis env qgs) (\<lambda>_.
           print (CHR 0x0A # ''QGIS environment closed.'')))
       | None \<Rightarrow>
           print (CHR 0x0A # ''Script execution halted due to initialization failure.'')))"

subsection \<open>Observations on a run\<close>

text \<open>The events a run added to the trace, and the text it wrote to the standard output.\<close>

definition new_events :: "world \<Rightarrow> world \<Rightarrow> event list" where
  "new_events w w' = drop (length (trace w)) (trace w')"

fun printed :: "event list \<Rightarrow> string list" where
  "printed [] = []"
| "printed (Print s # evs) = s # printed evs"
| "printed (_ # evs) = printed evs"


text \<open>The seven lines of \<open>run_risk_assessment\<close>, as they reach the standard output.\<close>

definition workflow_lines :: "string list" where
  "workflow_lines =
     [CHR 0x0A # ''--- Starting Automated Risk Assessment ---'' @ [CHR 0x0A],
      CHR 0x0A # ''Step 1: Loading spatial layers... (Placeholder)'' @ [CHR 0x0A],
      ''Step 2: Standardizing layers by clipping... (Placeholder)'' @ [CHR 0x0A],
      ''Step 3: Normalizing layers to 0-1 scale... (Placeholder)'' @ [CHR 0x0A],
      ''Step 4: Applying Weighted Linear Combination... (Placeholder)'' @ [CHR 0x0A],
      CHR 0x0A # check_mark @ '' Risk assessment workflow complete (simulation).'' @ [CHR 0x0A],
      ''Final risk map would be saved in the output directory.'' @ [CHR 0x0A]]"

text \<open>
  A step-description line is a printed line that, after its leading newlines, starts with
  \<open>Step\<close> and a blank.
\<close>

definition is_step_line :: "string \<Rightarrow> bool" where
  "is_step_line s = (take 5 (dropWhile (\<lambda>c. c = CHR 0x0A) s) = ''Step '')"

definition step_lines :: "event list \<Rightarrow> string list" where
  "step_lines evs = filter is_step_line (printed evs)"

definition four_step_lines :: "string list" where
  "four_step_lines =
     [CHR 0x0A # ''Step 1: Loading spatial layers... (Placeholder)'' @ [CHR 0x0A],
      ''Step 2: Standardizing layers by clipping... (Placeholder)'' @ [CHR 0x0A],
      ''Step 3: Normalizing layers to 0-1 scale... (Placeholder)'' @ [CHR 0x0A],
      ''Step 4: Applying Weighted Linear Combination... (Placeholder)'' @ [CHR 0x0A]]"

text \<open>
  The reconstructed workflow of the specification has three components, in the order
  Layer Loader, Standardizer, Normalizer and Combiner. In its words, loading is the Layer
  Loader's work (step 1), clipping and standardizing the Standardizer's (step 2),
  normalizing and the weighted combination the Normalizer and Combiner's (steps 3 and 4).
  \<open>step_number\<close> reads the digit that follows \<open>Step\<close> in a printed line.
\<close>

datatype component = Layer_Loader | Standardizer | Normalizer_Combiner

definition step_number :: "string \<Rightarrow> nat option" where
  "step_number s =
     (case drop 5 (dropWhile (\<lambda>c. c = CHR 0x0A) s) of
        [] \<Rightarrow> None
      | c # _ \<Rightarrow> map_of [(CHR ''1'', 1), (CHR ''2'', 2), (CHR ''3'', 3), (CHR ''4'', 4)] c)"

definition component_of_step :: "nat \<Rightarrow> component option" where
  "component_of_step n =
     (if n = 1 then Some Layer_Loader else if n = 2 then Some Standardizer
      else if n = 3 \<or> n = 4 then Some Normalizer_Combiner else None)"

text \<open>
  The library calls of a run of \<open>initialize_qgis\<close> in which nothing raises, for the
  application object \<open>qgs\<close>, and the module search path entry it appends.
\<close>

definition init_calls :: "qgs_app \<Rightarrow> event list" where
  "init_calls qgs =
     [Imported (FromImport ''qgis.core'' ''QgsApplication''),
      Imported (FromImport ''qgis.analysis'' ''QgsRasterCalculator''),
      SetPrefixPath ''/usr'' True,
      NewQgsApplication [] False,
      InitQgis qgs,
      Imported (Import ''processing''),
      Imported (FromImport ''processing.core.Processing'' ''Processing''),
      ProcessingInitialize]"

definition plugins_path :: string where
  "plugins_path = ''/usr/apps/qgis/python/plugins''"

text \<open>
  What a run of \<open>initialize_qgis\<close> may add to the trace: no \<open>exitQgis\<close>, no line of the
  workflow, no step line, and no prefix path other than \<open>/usr\<close>.
\<close>

fun init_phase_event :: "event \<Rightarrow> bool" where
  "init_phase_event (Print s) = (s \<notin> set workflow_lines \<and> \<not> is_step_line s)"
| "init_phase_event (ExitQgis qgs) = False"
| "init_phase_event (SetPrefixPath p b) = (p = ''/usr'' \<and> b)"
| "init_phase_event _ = True"

text \<open>
  A monitor for the life cycle of the library runtime. It reads a trace from the left with
  a flag that says whether the runtime is started: \<open>initQgis\<close> sets it, \<open>exitQgis\<close> needs
  it and clears it, and a line of the workflow needs it. The result is \<open>None\<close> when the
  trace breaks one of these rules, and the final flag otherwise.
\<close>

fun lifecycle :: "bool \<Rightarrow> event list \<Rightarrow> bool option" where
  "lifecycle started [] = Some started"
| "lifecycle started (InitQgis qgs # evs) = lifecycle True evs"
| "lifecycle started (ExitQgis qgs # evs) = (if started then lifecycle False evs else None)"
| "lifecycle started (Print s # evs) =
     (if s \<in> set workflow_lines \<and> \<not> started then None else lifecycle started evs)"
| "lifecycle started (_ # evs) = lifecycle started evs"

text \<open>The other lines that the script prints, as they reach the standard output.\<close>

definition banner_line :: string where
  "banner_line = banner @ [CHR 0x0A]"

definition closed_line :: string where
  "closed_line = CHR 0x0A # ''QGIS environment closed.'' @ [CHR 0x0A]"

definition halted_line :: string where
  "halted_line = CHR 0x0A # ''Script execution halted due to initialization failure.'' @ [CHR 0x0A]"

definition success_line :: string where
  "success_line = check_mark @ '' QGIS environment initialized successfully.'' @ [CHR 0x0A]"

subsection \<open>Concrete worlds and environments\<close>

text \<open>
  Two empty worlds: \<open>w0\<close> with a standard output in UTF-8, which has every character, and
  \<open>w_ascii\<close> with one in ASCII.
\<close>

definition w0 :: world where
  "w0 = \<lparr>trace = [], sys_path = [], files = (\<lambda>_. None),
         stdout_encodes = (\<lambda>_. True), stdout_error_str = (\<lambda>_. [])\<rparr>"

definition w_ascii :: world where
  "w_ascii = \<lparr>trace = [], sys_path = [], files = (\<lambda>_. None),
         stdout_encodes = (\<lambda>_. False),
         stdout_error_str = (\<lambda>_. ''ascii codec cannot encode character'')\<rparr>"

text \<open>A machine on which every library call completes.\<close>

definition env_installed :: qgis_env where
  "env_installed =
     \<lparr>import_outcome = (\<lambda>path stmt. None),
      setPrefixPath_outcome = (\<lambda>p b. None),
      QgsApplication_outcome = Inr (QgsApp 0),
      initQgis_outcome = (\<lambda>qgs. None),
      Processing_initialize_outcome = None,
      exitQgis_outcome = (\<lambda>qgs. None),
      library_effect = (\<lambda>ev fs. fs)\<rparr>"

text \<open>A machine without the library: every import raises \<open>ModuleNotFoundError\<close>.\<close>

definition env_absent :: qgis_env where
  "env_absent = env_installed
     \<lparr>import_outcome := (\<lambda>path stmt. Some (PyExc ImportError ''No module named qgis''))\<rparr>"

text \<open>
  A machine with the application installed under \<open>/opt/qgis\<close>: the \<open>processing\<close> plugin is
  found only when the plugin directory of that installation is on the module search path.
\<close>

definition env_opt_qgis :: qgis_env where
  "env_opt_qgis = env_installed
     \<lparr>import_outcome := (\<lambda>path stmt.
        if (stmt = Import ''processing''
            \<or> stmt = FromImport ''processing.core.Processing'' ''Processing'')
           \<and> ''/opt/qgis/apps/qgis/python/plugins'' \<notin> set path
        then Some (PyExc ImportError ''No module named processing'') else None)\<rparr>"

text \<open>A machine on which \<open>setPrefixPath\<close> raises a \<open>RuntimeError\<close>.\<close>

definition env_prefix_error :: qgis_env where
  "env_prefix_error = env_installed
     \<lparr>setPrefixPath_outcome := (\<lambda>p b. Some (PyExc OtherException ''bad prefix''))\<rparr>"

text \<open>A machine on which \<open>setPrefixPath\<close> raises an exception whose \<open>__str__\<close> raises.\<close>

definition env_unprintable :: qgis_env where
  "env_unprintable = env_installed
     \<lparr>setPrefixPath_outcome := (\<lambda>p b.
        Some (Unprintable OtherException (PyExc OtherException ''str failed'')))\<rparr>"

text \<open>A run interrupted from the keyboard while the application object is built.\<close>

definition env_interrupt :: qgis_env where
  "env_interrupt = env_installed
     \<lparr>QgsApplication_outcome := Inl (PyExc NonException [])\<rparr>"

section \<open>Properties\<close>

subsection \<open>Auxiliary facts\<close>

lemmas py_defs = py_bind_def py_return_def library_call_def py_import_def
  setPrefixPath_def QgsApplication_def initQgis_def Processing_initialize_def exitQgis_def
  sys_path_append_def

lemmas env_defs = env_installed_def env_absent_def env_opt_qgis_def env_prefix_error_def
  env_unprintable_def env_interrupt_def

text \<open>Which texts the standard output takes.\<close>

lemma utf8_chars_ascii:
  "\<forall>c \<in> set s. (of_char c :: nat) < 128 \<Longrightarrow> utf8_chars s = map (\<lambda>c. [c]) s"
proof (induction s)
  case Nil
  show ?case by simp
next
  case (Cons a s)
  then show ?case by (cases s) (simp_all add: is_continuation_def)
qed

lemma encodable_ascii:
  "\<forall>c \<in> set s. (of_char c :: nat) < 128 \<Longrightarrow> encodable w s"
  by (simp add: encodable_def utf8_chars_ascii list_all_iff ascii_char_def)

lemma encodable_check_mark:
  "\<forall>c \<in> set s. (of_char c :: nat) < 128 \<Longrightarrow>
   encodable w (check_mark @ s) = stdout_encodes w check_mark"
  using encodable_ascii [of s w]
  by (cases s) (simp_all add: encodable_def check_mark_def is_continuation_def ascii_char_def)

lemma encodable_newline_check_mark:
  "\<forall>c \<in> set s. (of_char c :: nat) < 128 \<Longrightarrow>
   encodable w (CHR 0x0A # check_mark @ s) = stdout_encodes w check_mark"
  using encodable_ascii [of s w]
  by (cases s) (simp_all add: encodable_def check_mark_def is_continuation_def ascii_char_def)

lemma encodable_cross_mark:
  "\<forall>c \<in> set s. (of_char c :: nat) < 128 \<Longrightarrow>
   encodable w (cross_mark @ s) = stdout_encodes w cross_mark"
  using encodable_ascii [of s w]
  by (cases s) (simp_all add: encodable_def cross_mark_def is_continuation_def ascii_char_def)


lemma print_ascii:
  "\<forall>c \<in> set s. (of_char c :: nat) < 128 \<Longrightarrow>
   print s w = (Inr (), w\<lparr>trace := trace w @ [Print (s @ [CHR 0x0A])]\<rparr>)"
  by (simp add: print_def encodable_ascii)

lemma print_check_mark:
  "\<forall>c \<in> set s. (of_char c :: nat) < 128 \<Longrightarrow>
   print (check_mark @ s) w =
     (if stdout_encodes w check_mark
      then (Inr (), w\<lparr>trace := trace w @ [Print (check_mark @ s @ [CHR 0x0A])]\<rparr>)
      else (Inl (UnicodeEncodeError w (check_mark @ s)), w))"
  by (simp add: print_def encodable_check_mark)

lemma print_newline_check_mark:
  "\<forall>c \<in> set s. (of_char c :: nat) < 128 \<Longrightarrow>
   print (CHR 0x0A # check_mark @ s) w =
     (if stdout_encodes w check_mark
      then (Inr (), w\<lparr>trace := trace w @ [Print (CHR 0x0A # check_mark @ s @ [CHR 0x0A])]\<rparr>)
      else (Inl (UnicodeEncodeError w (CHR 0x0A # check_mark @ s)), w))"
  by (simp add: print_def encodable_newline_check_mark)

lemma print_cross_mark:
  "\<forall>c \<in> set s. (of_char c :: nat) < 128 \<Longrightarrow>
   print (cross_mark @ s) w =
     (if stdout_encodes w cross_mark
      then (Inr (), w\<lparr>trace := trace w @ [Print (cross_mark @ s @ [CHR 0x0A])]\<rparr>)
      else (Inl (UnicodeEncodeError w (cross_mark @ s)), w))"
  by (simp add: print_def encodable_cross_mark)

lemmas print_simps = print_ascii print_check_mark print_newline_check_mark print_cross_mark

lemma run_risk_assessment_encodes:
  "stdout_encodes w check_mark \<Longrightarrow>
   run_risk_assessment w = (Inr (), w\<lparr>trace := trace w @ map Print workflow_lines\<rparr>)"
  by (simp add: run_risk_assessment_def py_bind_def print_simps workflow_lines_def)

lemma run_risk_assessment_raises:
  "\<not> stdout_encodes w check_mark \<Longrightarrow>
   run_risk_assessment w =
     (Inl (UnicodeEncodeError (w\<lparr>trace := trace w @ map Print (take 5 workflow_lines)\<rparr>)
             (CHR 0x0A # check_mark @ '' Risk assessment workflow complete (simulation).'')),
      w\<lparr>trace := trace w @ map Print (take 5 workflow_lines)\<rparr>)"
  by (simp add: run_risk_assessment_def py_bind_def print_simps workflow_lines_def)

lemma printed_map_Print: "printed (map Print ss) = ss"
  by (induction ss) simp_all

lemma printed_append: "printed (xs @ ys) = printed xs @ printed ys"
  by (induction xs rule: printed.induct) simp_all

lemma step_lines_workflow: "filter is_step_line workflow_lines = four_step_lines"
  by (simp add: workflow_lines_def four_step_lines_def is_step_line_def check_mark_def)

lemma step_lines_first_five: "filter is_step_line (take 5 workflow_lines) = four_step_lines"
  by (simp add: workflow_lines_def four_step_lines_def is_step_line_def)

lemma try_body_returns:
  assumes "try_body env w = (Inr r, w')"
  shows "\<exists>qgs. r = Some qgs \<and> QgsApplication_outcome env = Inr qgs
           \<and> trace w' = trace w @ init_calls qgs
                @ [Print (check_mark @ '' QGIS environment initialized successfully.'' @ [CHR 0x0A])]
           \<and> sys_path w' = sys_path w @ [plugins_path]
           \<and> stdout_encodes w' = stdout_encodes w
           \<and> stdout_encodes w check_mark"
  using assms
  by (auto simp: try_body_def py_defs print_simps Let_def init_calls_def QGIS_INSTALL_PATH_def
           os_path_join_def plugins_path_def split: option.splits sum.splits if_splits)

lemma try_body_raises:
  assumes "try_body env w = (Inl e, w')"
  shows "\<exists>evs. trace w' = trace w @ evs \<and> list_all init_phase_event evs \<and> printed evs = []
           \<and> (sys_path w' = sys_path w \<or> sys_path w' = sys_path w @ [plugins_path])
           \<and> stdout_encodes w' = stdout_encodes w"
  using assms
  by (auto simp: try_body_def py_defs print_simps Let_def QGIS_INSTALL_PATH_def os_path_join_def
           plugins_path_def split: option.splits sum.splits if_splits)

text \<open>The ways in which the try statement ends.\<close>

lemma initialize_qgis_returned:
  "try_body env w = (Inr r, w') \<Longrightarrow> initialize_qgis env w = (Inr r, w')"
  by (simp add: initialize_qgis_def)

lemma initialize_qgis_ImportError:
  "try_body env w = (Inl e, w') \<Longrightarrow> is_ImportError e \<Longrightarrow> stdout_encodes w' cross_mark \<Longrightarrow>
   initialize_qgis env w =
     (Inr None, w'\<lparr>trace := trace w' @
        [Print (cross_mark @ '' Error: PyQGIS libraries not found. Is QGIS_INSTALL_PATH correct?'' @ [CHR 0x0A]),
         Print (''   This script cannot run without a local QGIS installation.'' @ [CHR 0x0A])]\<rparr>)"
  by (simp add: initialize_qgis_def py_bind_def py_return_def print_simps)

lemma initialize_qgis_ImportError_unencodable:
  "try_body env w = (Inl e, w') \<Longrightarrow> is_ImportError e \<Longrightarrow> \<not> stdout_encodes w' cross_mark \<Longrightarrow>
   initialize_qgis env w =
     (Inl (UnicodeEncodeError w'
        (cross_mark @ '' Error: PyQGIS libraries not found. Is QGIS_INSTALL_PATH correct?'')), w')"
  by (simp add: initialize_qgis_def py_bind_def py_return_def print_simps)

lemma initialize_qgis_OtherException:
  "try_body env w = (Inl e, w') \<Longrightarrow> \<not> is_ImportError e \<Longrightarrow> is_Exception e \<Longrightarrow>
   py_str e = Inr s \<Longrightarrow>
   encodable w' (cross_mark @ '' An unexpected error occurred during QGIS initialization: '' @ s) \<Longrightarrow>
   initialize_qgis env w =
     (Inr None, w'\<lparr>trace := trace w' @
        [Print (cross_mark @ '' An unexpected error occurred during QGIS initialization: ''
                @ s @ [CHR 0x0A])]\<rparr>)"
  by (simp add: initialize_qgis_def py_bind_def py_return_def print_def)

lemma initialize_qgis_OtherException_unencodable:
  "try_body env w = (Inl e, w') \<Longrightarrow> \<not> is_ImportError e \<Longrightarrow> is_Exception e \<Longrightarrow>
   py_str e = Inr s \<Longrightarrow>
   \<not> encodable w' (cross_mark @ '' An unexpected error occurred during QGIS initialization: '' @ s) \<Longrightarrow>
   initialize_qgis env w =
     (Inl (UnicodeEncodeError w'
        (cross_mark @ '' An unexpected error occurred during QGIS initialization: '' @ s)), w')"
  by (simp add: initialize_qgis_def py_bind_def py_return_def print_def)

lemma initialize_qgis_OtherException_unprintable:
  "try_body env w = (Inl e, w') \<Longrightarrow> \<not> is_ImportError e \<Longrightarrow> is_Exception e \<Longrightarrow>
   py_str e = Inl x \<Longrightarrow> initialize_qgis env w = (Inl x, w')"
  by (simp add: initialize_qgis_def)

lemma initialize_qgis_propagates:
  "try_body env w = (Inl e, w') \<Longrightarrow> \<not> is_Exception e \<Longrightarrow> initialize_qgis env w = (Inl e, w')"
  by (auto simp add: initialize_qgis_def is_Exception_def is_ImportError_def)

lemma error_lines_not_workflow:
  "cross_mark @ s \<notin> set workflow_lines \<and> \<not> is_step_line (cross_mark @ s)"
  by (simp add: workflow_lines_def cross_mark_def check_mark_def is_step_line_def)

lemma success_line_not_workflow:
  "check_mark @ s \<notin> set workflow_lines \<and> \<not> is_step_line (check_mark @ s)"
  by (simp add: workflow_lines_def check_mark_def is_step_line_def)

lemma indent_line_not_workflow:
  "''   This script cannot run without a local QGIS installation.'' @ [CHR 0x0A] \<notin> set workflow_lines
   \<and> \<not> is_step_line (''   This script cannot run without a local QGIS installation.'' @ [CHR 0x0A])"
  by (simp add: workflow_lines_def check_mark_def is_step_line_def)

lemma list_all_init_calls: "list_all init_phase_event (init_calls qgs)"
  by (simp add: init_calls_def)

text \<open>What the handlers add to the world that the try block leaves.\<close>

lemma handler_events:
  assumes "try_body env w = (t, w1)"
  shows "\<exists>evs. trace (snd (initialize_qgis env w)) = trace w1 @ evs
           \<and> list_all init_phase_event evs
           \<and> sys_path (snd (initialize_qgis env w)) = sys_path w1
           \<and> stdout_encodes (snd (initialize_qgis env w)) = stdout_encodes w1"
proof (cases t)
  case (Inr r)
  with assms show ?thesis by (simp add: initialize_qgis_returned)
next
  case (Inl e)
  note tb = assms [unfolded Inl]
  consider (imp) "is_ImportError e" "stdout_encodes w1 cross_mark"
    | (imp_raise) "is_ImportError e" "\<not> stdout_encodes w1 cross_mark"
    | (oth) s where "\<not> is_ImportError e" "is_Exception e" "py_str e = Inr s"
        "encodable w1 (cross_mark @ '' An unexpected error occurred during QGIS initialization: '' @ s)"
    | (oth_raise) s where "\<not> is_ImportError e" "is_Exception e" "py_str e = Inr s"
        "\<not> encodable w1 (cross_mark @ '' An unexpected error occurred during QGIS initialization: '' @ s)"
    | (unprintable) x where "\<not> is_ImportError e" "is_Exception e" "py_str e = Inl x"
    | (non) "\<not> is_Exception e"
    by (cases "py_str e") blast+
  then show ?thesis
  proof cases
    case imp
    then show ?thesis
      using error_lines_not_workflow [of "'' Error: PyQGIS libraries not found. Is QGIS_INSTALL_PATH correct?'' @ [CHR 0x0A]"]
        indent_line_not_workflow
      by (simp add: initialize_qgis_ImportError [OF tb])
  next
    case imp_raise
    then show ?thesis by (simp add: initialize_qgis_ImportError_unencodable [OF tb])
  next
    case oth
    then show ?thesis
      using error_lines_not_workflow [of "'' An unexpected error occurred during QGIS initialization: '' @ s @ [CHR 0x0A]"]
      by (simp add: initialize_qgis_OtherException [OF tb])
  next
    case oth_raise
    then show ?thesis by (simp add: initialize_qgis_OtherException_unencodable [OF tb])
  next
    case unprintable
    then show ?thesis by (simp add: initialize_qgis_OtherException_unprintable [OF tb])
  next
    case non
    then show ?thesis by (simp add: initialize_qgis_propagates [OF tb])
  qed
qed

lemma initialize_qgis_events:
  "\<exists>evs. trace (snd (initialize_qgis env w)) = trace w @ evs \<and> list_all init_phase_event evs
         \<and> (sys_path (snd (initialize_qgis env w)) = sys_path w
            \<or> sys_path (snd (initialize_qgis env w)) = sys_path w @ [plugins_path])
         \<and> stdout_encodes (snd (initialize_qgis env w)) = stdout_encodes w"
proof -
  obtain t w1 where tb: "try_body env w = (t, w1)" by (cases "try_body env w")
  from handler_events [OF tb] obtain evs' where
    h: "trace (snd (initialize_qgis env w)) = trace w1 @ evs'" "list_all init_phase_event evs'"
       "sys_path (snd (initialize_qgis env w)) = sys_path w1"
       "stdout_encodes (snd (initialize_qgis env w)) = stdout_encodes w1"
    by blast
  have "\<exists>evs. trace w1 = trace w @ evs \<and> list_all init_phase_event evs
          \<and> (sys_path w1 = sys_path w \<or> sys_path w1 = sys_path w @ [plugins_path])
          \<and> stdout_encodes w1 = stdout_encodes w"
  proof (cases t)
    case (Inr r)
    with tb try_body_returns [of env w r w1] show ?thesis
      using success_line_not_workflow [of "'' QGIS environment initialized successfully.'' @ [CHR 0x0A]"]
      by (auto simp: list_all_init_calls)
  next
    case (Inl e)
    with tb try_body_raises [of env w e w1] show ?thesis by auto
  qed
  then obtain evs where
    t: "trace w1 = trace w @ evs" "list_all init_phase_event evs"
       "sys_path w1 = sys_path w \<or> sys_path w1 = sys_path w @ [plugins_path]"
       "stdout_encodes w1 = stdout_encodes w"
    by blast
  from h t have "trace (snd (initialize_qgis env w)) = trace w @ (evs @ evs')"
    "list_all init_phase_event (evs @ evs')" by simp_all
  with h t show ?thesis by metis
qed

lemma initialize_qgis_Some:
  assumes "initialize_qgis env w = (Inr (Some qgs), w')"
  shows "trace w' = trace w @ init_calls qgs @ [Print success_line]
         \<and> sys_path w' = sys_path w @ [plugins_path]
         \<and> stdout_encodes w' check_mark"
proof -
  obtain t w1 where tb: "try_body env w = (t, w1)" by (cases "try_body env w")
  show ?thesis
  proof (cases t)
    case (Inr v)
    with tb assms try_body_returns [of env w v w1] show ?thesis
      by (auto simp: initialize_qgis_returned success_line_def)
  next
    case (Inl e)
    with tb assms have False
      by (auto simp: initialize_qgis_def py_bind_def py_return_def print_def
            split: if_splits sum.splits)
    then show ?thesis ..
  qed
qed

lemma print_banner: "print banner w = (Inr (), w\<lparr>trace := trace w @ [Print banner_line]\<rparr>)"
  by (simp add: print_ascii banner_def banner_line_def)

lemma main_started:
  assumes "initialize_qgis env (snd (print banner w)) = (Inr (Some qgs), w2)"
  shows "trace (snd (main env w)) = trace w2 @ map Print workflow_lines @ ExitQgis qgs #
           (case exitQgis_outcome env qgs of None \<Rightarrow> [Print closed_line] | Some e \<Rightarrow> [])
         \<and> sys_path (snd (main env w)) = sys_path w2
         \<and> fst (main env w) = (case exitQgis_outcome env qgs of None \<Rightarrow> Inr () | Some e \<Rightarrow> Inl e)"
proof -
  from initialize_qgis_Some [OF assms] have "stdout_encodes w2 check_mark" by simp
  then have r: "run_risk_assessment w2 = (Inr (), w2\<lparr>trace := trace w2 @ map Print workflow_lines\<rparr>)"
    by (rule run_risk_assessment_encodes)
  have i: "initialize_qgis env (w\<lparr>trace := trace w @ [Print banner_line]\<rparr>) = (Inr (Some qgs), w2)"
    using assms by (simp add: print_banner)
  show ?thesis
    by (simp add: main_def py_bind_def [of "print banner"] py_bind_def [of "initialize_qgis env"]
        py_bind_def [of run_risk_assessment] print_banner i r print_ascii exitQgis_def
        library_call_def py_bind_def Let_def closed_line_def split: option.splits)
qed

lemma main_halted:
  assumes "initialize_qgis env (snd (print banner w)) = (Inr None, w2)"
  shows "main env w = (Inr (), w2\<lparr>trace := trace w2 @ [Print halted_line]\<rparr>)"
  using assms by (simp add: main_def py_bind_def print_banner print_ascii halted_line_def)

lemma main_propagates:
  assumes "initialize_qgis env (snd (print banner w)) = (Inl e, w2)"
  shows "main env w = (Inl e, w2)"
  using assms by (simp add: main_def py_bind_def print_banner)

lemmas run_defs = try_body_def initialize_qgis_def py_defs print_simps env_defs w0_def
  w_ascii_def Let_def is_ImportError_def is_Exception_def QGIS_INSTALL_PATH_def os_path_join_def
  UnicodeEncodeError_def

subsection \<open>The workflow function\<close>




text \<open>
  C4. In every world, the step lines that \<open>run_risk_assessment\<close> prints are the four
  lines of steps 1 (load), 2 (standardize by clipping), 3 (normalize to 0-1) and
  4 (weighted linear combination), in this order; read through the components of the
  reconstructed workflow, this is the order Layer Loader, Standardizer, Normalizer and
  Combiner.
\<close>

theorem run_risk_assessment_step_order:
  "step_lines (new_events w (snd (run_risk_assessment w))) = four_step_lines
   \<and> map step_number (step_lines (new_events w (snd (run_risk_assessment w))))
       = [Some 1, Some 2, Some 3, Some 4]
   \<and> remdups_adj (map (\<lambda>s. Option.bind (step_number s) component_of_step)
        (step_lines (new_events w (snd (run_risk_assessment w)))))
       = [Some Layer_Loader, Some Standardizer, Some Normalizer_Combiner]"
proof -
  have s: "step_lines (new_events w (snd (run_risk_assessment w))) = four_step_lines"
    by (cases "stdout_encodes w check_mark")
      (simp_all add: run_risk_assessment_encodes run_risk_assessment_raises new_events_def
         step_lines_def printed_map_Print step_lines_workflow step_lines_first_five)
  have n: "map step_number four_step_lines = [Some 1, Some 2, Some 3, Some 4]"
    by (simp add: four_step_lines_def step_number_def)
  have c: "map (\<lambda>s. Option.bind (step_number s) component_of_step) four_step_lines
             = [Some Layer_Loader, Some Standardizer, Some Normalizer_Combiner,
                Some Normalizer_Combiner]"
    by (simp add: four_step_lines_def step_number_def component_of_step_def)
  show ?thesis by (simp add: s n c)
qed




subsection \<open>Initialization\<close>







subsection \<open>The main block\<close>

lemma lifecycle_append:
  "lifecycle b (xs @ ys) = (case lifecycle b xs of None \<Rightarrow> None | Some b' \<Rightarrow> lifecycle b' ys)"
  by (induction b xs rule: lifecycle.induct) simp_all

lemma lifecycle_init_phase:
  "list_all init_phase_event evs \<Longrightarrow> \<exists>b'. lifecycle b evs = Some b'"
  by (induction b evs rule: lifecycle.induct) simp_all

lemma lifecycle_init_calls: "lifecycle b (init_calls qgs) = Some True"
  by (simp add: init_calls_def)

lemma lifecycle_prints: "lifecycle True (map Print ss) = Some True"
  by (induction ss) simp_all

lemma init_phase_no_exit: "list_all init_phase_event evs \<Longrightarrow> ExitQgis qgs \<notin> set evs"
  by (induction evs) auto

lemma init_phase_no_workflow:
  "list_all init_phase_event evs \<Longrightarrow> s \<in> set workflow_lines \<Longrightarrow> Print s \<notin> set evs"
  by (induction evs) auto

lemma init_phase_no_step: "list_all init_phase_event evs \<Longrightarrow> step_lines evs = []"
  unfolding step_lines_def by (induction evs rule: printed.induct) simp_all

lemma init_phase_printed:
  "list_all init_phase_event evs \<Longrightarrow> set (printed evs) \<inter> set workflow_lines = {}"
  by (induction evs rule: printed.induct) simp_all

lemma init_phase_prefix: "list_all init_phase_event evs \<Longrightarrow> SetPrefixPath p b \<in> set evs \<Longrightarrow> p = ''/usr''"
  by (induction evs) auto

lemma other_lines:
  "banner_line \<notin> set workflow_lines" "\<not> is_step_line banner_line"
  "halted_line \<notin> set workflow_lines" "\<not> is_step_line halted_line"
  "closed_line \<notin> set workflow_lines" "\<not> is_step_line closed_line"
  "success_line \<notin> set workflow_lines" "\<not> is_step_line success_line"
  by (simp_all add: banner_line_def banner_def halted_line_def closed_line_def success_line_def
        workflow_lines_def is_step_line_def check_mark_def)

lemma main_new_events_started:
  assumes "initialize_qgis env (snd (print banner w)) = (Inr (Some qgs), w2)"
  shows "new_events w (snd (main env w)) =
           Print banner_line # init_calls qgs @ Print success_line # map Print workflow_lines
           @ ExitQgis qgs # (case exitQgis_outcome env qgs of None \<Rightarrow> [Print closed_line] | Some e \<Rightarrow> [])"
  using main_started [OF assms] initialize_qgis_Some [OF assms]
  by (simp add: new_events_def print_banner)

lemma main_new_events_halted:
  assumes "initialize_qgis env (snd (print banner w)) = (Inr None, w2)"
  shows "\<exists>ievs. list_all init_phase_event ievs
           \<and> new_events w (snd (main env w)) = Print banner_line # ievs @ [Print halted_line]
           \<and> new_events w2 (snd (main env w)) = [Print halted_line]"
proof -
  from initialize_qgis_events [of env "snd (print banner w)"] assms obtain ievs where
    i: "trace w2 = trace (snd (print banner w)) @ ievs" "list_all init_phase_event ievs"
    by auto
  with main_halted [OF assms] show ?thesis
    by (simp add: new_events_def print_banner)
qed

lemma main_new_events_raised:
  assumes "initialize_qgis env (snd (print banner w)) = (Inl e, w2)"
  shows "\<exists>ievs. list_all init_phase_event ievs
           \<and> new_events w (snd (main env w)) = Print banner_line # ievs"
proof -
  from initialize_qgis_events [of env "snd (print banner w)"] assms obtain ievs where
    i: "trace w2 = trace (snd (print banner w)) @ ievs" "list_all init_phase_event ievs"
    by auto
  with main_propagates [OF assms] show ?thesis
    by (simp add: new_events_def print_banner)
qed

lemma initialize_qgis_result_cases:
  obtains (started) qgs w2 where "initialize_qgis env w = (Inr (Some qgs), w2)"
  | (halted) w2 where "initialize_qgis env w = (Inr None, w2)"
  | (raised) e w2 where "initialize_qgis env w = (Inl e, w2)"
proof (cases "initialize_qgis env w")
  case (Pair r w2)
  then show ?thesis
    using started halted raised by (cases r; cases "projr r") auto
qed

lemma step_lines_started:
  "step_lines (Print banner_line # init_calls qgs @ Print success_line # map Print workflow_lines
     @ ExitQgis qgs # (case x of None \<Rightarrow> [Print closed_line] | Some e \<Rightarrow> [])) = four_step_lines"
  using other_lines step_lines_workflow
  by (simp add: step_lines_def printed_append printed_map_Print init_calls_def split: option.splits)

lemma initialize_qgis_installed:
  "fst (initialize_qgis env_installed (snd (print banner w0))) = Inr (Some (QgsApp 0))"
  by (simp add: run_defs print_banner)

lemma initialize_qgis_absent:
  "fst (initialize_qgis env_absent (snd (print banner w0))) = Inr None"
  by (simp add: run_defs print_banner)

lemma initialize_qgis_opt_qgis:
  "initialize_qgis env_opt_qgis (snd (print banner w0)) =
     (Inr None,
      \<lparr>trace =
         [Print banner_line,
          Imported (FromImport ''qgis.core'' ''QgsApplication''),
          Imported (FromImport ''qgis.analysis'' ''QgsRasterCalculator''),
          SetPrefixPath ''/usr'' True,
          NewQgsApplication [] False,
          InitQgis (QgsApp 0),
          Imported (Import ''processing''),
          Print (cross_mark @ '' Error: PyQGIS libraries not found. Is QGIS_INSTALL_PATH correct?'' @ [CHR 0x0A]),
          Print (''   This script cannot run without a local QGIS installation.'' @ [CHR 0x0A])],
       sys_path = [''/usr/apps/qgis/python/plugins''],
       files = (\<lambda>_. None),
       stdout_encodes = (\<lambda>_. True), stdout_error_str = (\<lambda>_. [])\<rparr>)"
  by (simp add: run_defs print_banner banner_line_def)

text \<open>
  C5. In every run of the main block, \<open>exitQgis\<close> is called if and only if
  \<open>initialize_qgis\<close> returned an application object. The trace of the run obeys the life
  cycle of the runtime: no line of the workflow and no \<open>exitQgis\<close> before \<open>initQgis\<close>,
  none after \<open>exitQgis\<close>. A line of the workflow appears only if the initialization
  returned an object, and then the run is: the banner, the calls of the initialization,
  the seven lines of the workflow, \<open>exitQgis\<close>, and the closing line when \<open>exitQgis\<close>
  completes.
\<close>

theorem main_exitQgis_iff_started:
  "((\<exists>qgs. ExitQgis qgs \<in> set (new_events w (snd (main env w))))
      \<longleftrightarrow> (\<exists>qgs. fst (initialize_qgis env (snd (print banner w))) = Inr (Some qgs)))
   \<and> lifecycle False (new_events w (snd (main env w))) \<noteq> None
   \<and> ((\<exists>s \<in> set workflow_lines. Print s \<in> set (new_events w (snd (main env w))))
        \<longrightarrow> (\<exists>qgs. fst (initialize_qgis env (snd (print banner w))) = Inr (Some qgs)))
   \<and> (fst (initialize_qgis env (snd (print banner w))) = Inr (Some qgs) \<longrightarrow>
        new_events w (snd (main env w)) =
          Print banner_line # init_calls qgs @ Print success_line # map Print workflow_lines
          @ ExitQgis qgs # (case exitQgis_outcome env qgs of None \<Rightarrow> [Print closed_line] | Some e \<Rightarrow> []))"
proof (cases env "snd (print banner w)" rule: initialize_qgis_result_cases)
  case (started q w2)
  note ev = main_new_events_started [OF started]
  have "lifecycle False (new_events w (snd (main env w))) \<noteq> None"
    using other_lines
    by (auto simp: ev lifecycle_append lifecycle_init_calls lifecycle_prints split: option.splits)
  moreover have "ExitQgis q \<in> set (new_events w (snd (main env w)))"
    by (simp add: ev)
  ultimately show ?thesis using started ev by auto
next
  case (halted w2)
  from main_new_events_halted [OF halted] obtain ievs where
    i: "list_all init_phase_event ievs"
       "new_events w (snd (main env w)) = Print banner_line # ievs @ [Print halted_line]" by auto
  from lifecycle_init_phase [OF i(1), of False] obtain b' where
    b: "lifecycle False ievs = Some b'" ..
  have "lifecycle False (new_events w (snd (main env w))) \<noteq> None"
    using other_lines by (simp add: i(2) lifecycle_append b)
  moreover have "\<And>q. ExitQgis q \<notin> set (new_events w (snd (main env w)))"
    using init_phase_no_exit [OF i(1)] by (simp add: i(2))
  moreover have "\<And>s. s \<in> set workflow_lines \<Longrightarrow> Print s \<notin> set (new_events w (snd (main env w)))"
    using init_phase_no_workflow [OF i(1)] other_lines by (auto simp: i(2))
  ultimately show ?thesis using halted by auto
next
  case (raised e w2)
  from main_new_events_raised [OF raised] obtain ievs where
    i: "list_all init_phase_event ievs"
       "new_events w (snd (main env w)) = Print banner_line # ievs" by auto
  from lifecycle_init_phase [OF i(1), of False] obtain b' where
    b: "lifecycle False ievs = Some b'" ..
  have "lifecycle False (new_events w (snd (main env w))) \<noteq> None"
    using other_lines by (simp add: i(2) b)
  moreover have "\<And>q. ExitQgis q \<notin> set (new_events w (snd (main env w)))"
    using init_phase_no_exit [OF i(1)] by (simp add: i(2))
  moreover have "\<And>s. s \<in> set workflow_lines \<Longrightarrow> Print s \<notin> set (new_events w (snd (main env w)))"
    using init_phase_no_workflow [OF i(1)] other_lines by (auto simp: i(2))
  ultimately show ?thesis using raised by auto
qed

text \<open>
  A run on a machine where every call completes, and a run on a machine without the
  library.
\<close>

theorem main_exitQgis_iff_started_witness:
  "fst (initialize_qgis env_installed (snd (print banner w0))) = Inr (Some (QgsApp 0))
   \<and> new_events w0 (snd (main env_installed w0)) =
        Print banner_line # init_calls (QgsApp 0) @ Print success_line # map Print workflow_lines
        @ [ExitQgis (QgsApp 0), Print closed_line]
   \<and> (\<exists>qgs. ExitQgis qgs \<in> set (new_events w0 (snd (main env_installed w0))))
   \<and> (\<exists>s \<in> set workflow_lines. Print s \<in> set (new_events w0 (snd (main env_installed w0))))
   \<and> lifecycle False (new_events w0 (snd (main env_installed w0))) \<noteq> None
   \<and> fst (initialize_qgis env_absent (snd (print banner w0))) = Inr None
   \<and> \<not> (\<exists>qgs. ExitQgis qgs \<in> set (new_events w0 (snd (main env_absent w0))))"
proof -
  have h: "fst (initialize_qgis env_installed (snd (print banner w0))) = Inr (Some (QgsApp 0))"
    by (rule initialize_qgis_installed)
  have o: "exitQgis_outcome env_installed (QgsApp 0) = None"
    by (simp add: env_installed_def)
  from main_exitQgis_iff_started [of w0 env_installed "QgsApp 0"] h have
    e: "new_events w0 (snd (main env_installed w0)) =
          Print banner_line # init_calls (QgsApp 0) @ Print success_line # map Print workflow_lines
          @ [ExitQgis (QgsApp 0), Print closed_line]"
    by (simp add: o)
  from main_exitQgis_iff_started [of w0 env_installed "QgsApp 0"] have
    l: "lifecycle False (new_events w0 (snd (main env_installed w0))) \<noteq> None"
    by blast
  have "ExitQgis (QgsApp 0) \<in> set (new_events w0 (snd (main env_installed w0)))"
    by (simp add: e)
  then have x: "\<exists>qgs. ExitQgis qgs \<in> set (new_events w0 (snd (main env_installed w0)))" ..
  have "hd workflow_lines \<in> set workflow_lines"
    "Print (hd workflow_lines) \<in> set (new_events w0 (snd (main env_installed w0)))"
    by (simp_all add: e workflow_lines_def)
  then have s: "\<exists>s \<in> set workflow_lines. Print s \<in> set (new_events w0 (snd (main env_installed w0)))" ..
  have a: "fst (initialize_qgis env_absent (snd (print banner w0))) = Inr None"
    by (rule initialize_qgis_absent)
  from main_exitQgis_iff_started [of w0 env_absent "QgsApp 0"] a have
    n: "\<not> (\<exists>qgs. ExitQgis qgs \<in> set (new_events w0 (snd (main env_absent w0))))"
    by simp
  from h e x s l a n show ?thesis by blast
qed

text \<open>
  C10. When \<open>initialize_qgis\<close> returns \<open>None\<close>, the main block ends normally; after the
  initialization it prints the one line that the script halted, and nothing else happens:
  the run contains no \<open>exitQgis\<close>, no line of the workflow and no step line.
\<close>

theorem main_halts_after_failed_initialization:
  assumes "fst (initialize_qgis env (snd (print banner w))) = Inr None"
  shows "fst (main env w) = Inr ()
         \<and> new_events (snd (initialize_qgis env (snd (print banner w)))) (snd (main env w))
             = [Print (CHR 0x0A # ''Script execution halted due to initialization failure.'' @ [CHR 0x0A])]
         \<and> (\<forall>qgs. ExitQgis qgs \<notin> set (new_events w (snd (main env w))))
         \<and> set (printed (new_events w (snd (main env w)))) \<inter> set workflow_lines = {}
         \<and> step_lines (new_events w (snd (main env w))) = []"
proof -
  obtain w2 where h: "initialize_qgis env (snd (print banner w)) = (Inr None, w2)"
    using assms by (cases "initialize_qgis env (snd (print banner w))") simp
  from main_new_events_halted [OF h] obtain ievs where
    i: "list_all init_phase_event ievs"
       "new_events w (snd (main env w)) = Print banner_line # ievs @ [Print halted_line]"
       "new_events w2 (snd (main env w)) = [Print halted_line]" by auto
  have 1: "fst (main env w) = Inr ()" by (simp add: main_halted [OF h])
  have 2: "new_events (snd (initialize_qgis env (snd (print banner w)))) (snd (main env w))
             = [Print (CHR 0x0A # ''Script execution halted due to initialization failure.'' @ [CHR 0x0A])]"
    using i(3) by (simp add: h halted_line_def)
  have 3: "\<forall>qgs. ExitQgis qgs \<notin> set (new_events w (snd (main env w)))"
    using init_phase_no_exit [OF i(1)] by (simp add: i(2))
  have 4: "set (printed (new_events w (snd (main env w)))) \<inter> set workflow_lines = {}"
    using init_phase_printed [OF i(1)] other_lines by (simp add: i(2) printed_append)
  have 5: "step_lines (new_events w (snd (main env w))) = []"
    using init_phase_no_step [OF i(1)] other_lines
    by (simp add: i(2) step_lines_def printed_append)
  from 1 2 3 4 5 show ?thesis by blast
qed

theorem main_halts_after_failed_initialization_witness:
  "fst (initialize_qgis env_absent (snd (print banner w0))) = Inr None
   \<and> fst (main env_absent w0) = Inr ()
   \<and> new_events (snd (initialize_qgis env_absent (snd (print banner w0)))) (snd (main env_absent w0))
       = [Print (CHR 0x0A # ''Script execution halted due to initialization failure.'' @ [CHR 0x0A])]
   \<and> (\<forall>qgs. ExitQgis qgs \<notin> set (new_events w0 (snd (main env_absent w0))))
   \<and> step_lines (new_events w0 (snd (main env_absent w0))) = []"
  using initialize_qgis_absent main_halts_after_failed_initialization [OF initialize_qgis_absent]
  by simp

text \<open>
  C2, as the claim states it: no execution of the script emits the step-description
  messages. On a machine where every library call completes, the run of the script prints
  the lines of step 1 (loading spatial layers) and step 3 (normalizing layers): the
  \<open>print\<close> statements are live.
\<close>

theorem step_messages_commented_out_counterexample:
  "Print (CHR 0x0A # ''Step 1: Loading spatial layers... (Placeholder)'' @ [CHR 0x0A])
     \<in> set (trace (snd (main env_installed w0)))
   \<and> Print (''Step 3: Normalizing layers to 0-1 scale... (Placeholder)'' @ [CHR 0x0A])
     \<in> set (trace (snd (main env_installed w0)))
   \<and> step_lines (trace (snd (main env_installed w0))) \<noteq> []"
proof -
  obtain w2 where i: "initialize_qgis env_installed (snd (print banner w0)) = (Inr (Some (QgsApp 0)), w2)"
    using initialize_qgis_installed
    by (cases "initialize_qgis env_installed (snd (print banner w0))") simp
  have n: "new_events w0 (snd (main env_installed w0)) = trace (snd (main env_installed w0))"
    by (simp add: new_events_def w0_def)
  from main_new_events_started [OF i] n have
    t: "trace (snd (main env_installed w0)) =
         Print banner_line # init_calls (QgsApp 0) @ Print success_line # map Print workflow_lines
         @ [ExitQgis (QgsApp 0), Print closed_line]"
    by (simp add: env_installed_def)
  have s: "step_lines (trace (snd (main env_installed w0))) = four_step_lines"
    unfolding t using step_lines_started [of "QgsApp 0" None] by simp
  show ?thesis
    by (simp add: s four_step_lines_def) (simp add: t workflow_lines_def)
qed

text \<open>
  C2, amended. The \<open>print\<close> statements that describe the workflow steps are live
  statements: every execution of \<open>run_risk_assessment\<close> emits the four step lines, and
  a run of the script emits exactly these four step lines when \<open>initialize_qgis\<close> returns
  an application object, and no step line otherwise.
\<close>

theorem step_messages_are_emitted:
  "set four_step_lines \<subseteq> set (printed (new_events w (snd (run_risk_assessment w))))
   \<and> step_lines (new_events w (snd (main env w))) =
       (case fst (initialize_qgis env (snd (print banner w))) of
          Inr (Some qgs) \<Rightarrow> four_step_lines
        | Inr None \<Rightarrow> []
        | Inl e \<Rightarrow> [])"
proof
  show "set four_step_lines \<subseteq> set (printed (new_events w (snd (run_risk_assessment w))))"
    by (cases "stdout_encodes w check_mark")
      (simp_all add: run_risk_assessment_encodes run_risk_assessment_raises new_events_def
         printed_map_Print four_step_lines_def workflow_lines_def)
next
  show "step_lines (new_events w (snd (main env w))) =
       (case fst (initialize_qgis env (snd (print banner w))) of
          Inr (Some qgs) \<Rightarrow> four_step_lines
        | Inr None \<Rightarrow> []
        | Inl e \<Rightarrow> [])"
  proof (cases env "snd (print banner w)" rule: initialize_qgis_result_cases)
    case (started q w2)
    show ?thesis
      by (simp add: started main_new_events_started [OF started] step_lines_started)
  next
    case (halted w2)
    from main_new_events_halted [OF halted] obtain ievs where
      i: "list_all init_phase_event ievs"
         "new_events w (snd (main env w)) = Print banner_line # ievs @ [Print halted_line]" by auto
    show ?thesis
      using init_phase_no_step [OF i(1)] other_lines
      by (simp add: halted i(2) step_lines_def printed_append)
  next
    case (raised e w2)
    from main_new_events_raised [OF raised] obtain ievs where
      i: "list_all init_phase_event ievs"
         "new_events w (snd (main env w)) = Print banner_line # ievs" by auto
    show ?thesis
      using init_phase_no_step [OF i(1)] other_lines
      by (simp add: raised i(2) step_lines_def)
  qed
qed

theorem step_messages_are_emitted_witness:
  "fst (initialize_qgis env_installed (snd (print banner w0))) = Inr (Some (QgsApp 0))
   \<and> step_lines (new_events w0 (snd (main env_installed w0))) = four_step_lines
   \<and> fst (initialize_qgis env_absent (snd (print banner w0))) = Inr None
   \<and> step_lines (new_events w0 (snd (main env_absent w0))) = []"
  using step_messages_are_emitted [of w0 env_installed] step_messages_are_emitted [of w0 env_absent]
    initialize_qgis_installed initialize_qgis_absent
  by simp

text \<open>
  C6, as the claim states it: the script discovers where the application is installed.
  On a machine with the application under \<open>/opt/qgis\<close>, where the \<open>processing\<close> plugin is
  importable from the plugin directory of that installation and not from the one under
  \<open>/usr\<close>, the script still gives \<open>/usr\<close> to \<open>setPrefixPath\<close>, appends the plugin
  directory under \<open>/usr\<close> to the module search path, fails to import the plugin and
  halts.
\<close>

theorem install_path_located_counterexample:
  "import_outcome env_opt_qgis [''/opt/qgis/apps/qgis/python/plugins''] (Import ''processing'') = None
   \<and> import_outcome env_opt_qgis [''/usr/apps/qgis/python/plugins''] (Import ''processing'')
       = Some (PyExc ImportError ''No module named processing'')
   \<and> main env_opt_qgis w0 =
       (Inr (),
        \<lparr>trace =
           [Print (banner @ [CHR 0x0A]),
            Imported (FromImport ''qgis.core'' ''QgsApplication''),
            Imported (FromImport ''qgis.analysis'' ''QgsRasterCalculator''),
            SetPrefixPath ''/usr'' True,
            NewQgsApplication [] False,
            InitQgis (QgsApp 0),
            Imported (Import ''processing''),
            Print (cross_mark @ '' Error: PyQGIS libraries not found. Is QGIS_INSTALL_PATH correct?'' @ [CHR 0x0A]),
            Print (''   This script cannot run without a local QGIS installation.'' @ [CHR 0x0A]),
            Print (CHR 0x0A # ''Script execution halted due to initialization failure.'' @ [CHR 0x0A])],
         sys_path = [''/usr/apps/qgis/python/plugins''],
         files = (\<lambda>_. None),
         stdout_encodes = (\<lambda>_. True), stdout_error_str = (\<lambda>_. [])\<rparr>)"
  using main_halted [OF initialize_qgis_opt_qgis]
  by (simp add: env_opt_qgis_def env_installed_def halted_line_def banner_line_def)

text \<open>
  C6, amended. The script does not discover the installation path: \<open>QGIS_INSTALL_PATH\<close>
  is the constant \<open>/usr\<close>, every prefix path that a run gives to the library is this
  constant, and the only entry that a run may append to the module search path is the
  plugin directory under it.
\<close>

theorem install_path_is_hard_coded:
  "QGIS_INSTALL_PATH = ''/usr''
   \<and> (SetPrefixPath p b \<in> set (new_events w (snd (main env w))) \<longrightarrow> p = QGIS_INSTALL_PATH)
   \<and> (sys_path (snd (main env w)) = sys_path w
      \<or> sys_path (snd (main env w))
          = sys_path w @ [os_path_join QGIS_INSTALL_PATH ''apps/qgis/python/plugins''])"
proof -
  have pp: "os_path_join ''/usr'' ''apps/qgis/python/plugins'' = plugins_path"
    by (simp add: os_path_join_def plugins_path_def)
  from initialize_qgis_events [of env "snd (print banner w)"] have
    sp: "sys_path (snd (initialize_qgis env (snd (print banner w)))) = sys_path w
         \<or> sys_path (snd (initialize_qgis env (snd (print banner w)))) = sys_path w @ [plugins_path]"
    by (auto simp: print_banner)
  show ?thesis
  proof (cases env "snd (print banner w)" rule: initialize_qgis_result_cases)
    case (started q w2)
    have "SetPrefixPath p b \<in> set (new_events w (snd (main env w))) \<longrightarrow> p = ''/usr''"
      by (auto simp: main_new_events_started [OF started] init_calls_def split: option.splits)
    moreover have "sys_path (snd (main env w)) = sys_path w2"
      using main_started [OF started] by simp
    ultimately show ?thesis using sp started by (simp add: pp QGIS_INSTALL_PATH_def)
  next
    case (halted w2)
    from main_new_events_halted [OF halted] obtain ievs where
      i: "list_all init_phase_event ievs"
         "new_events w (snd (main env w)) = Print banner_line # ievs @ [Print halted_line]" by auto
    have "SetPrefixPath p b \<in> set (new_events w (snd (main env w))) \<longrightarrow> p = ''/usr''"
      using init_phase_prefix [OF i(1), of p b] by (auto simp: i(2))
    moreover have "sys_path (snd (main env w)) = sys_path w2"
      by (simp add: main_halted [OF halted])
    ultimately show ?thesis using sp halted by (simp add: pp QGIS_INSTALL_PATH_def)
  next
    case (raised e w2)
    from main_new_events_raised [OF raised] obtain ievs where
      i: "list_all init_phase_event ievs"
         "new_events w (snd (main env w)) = Print banner_line # ievs" by auto
    have "SetPrefixPath p b \<in> set (new_events w (snd (main env w))) \<longrightarrow> p = ''/usr''"
      using init_phase_prefix [OF i(1), of p b] by (auto simp: i(2))
    moreover have "sys_path (snd (main env w)) = sys_path w2"
      by (simp add: main_propagates [OF raised])
    ultimately show ?thesis using sp raised by (simp add: pp QGIS_INSTALL_PATH_def)
  qed
qed

theorem install_path_is_hard_coded_witness:
  "SetPrefixPath ''/usr'' True \<in> set (new_events w0 (snd (main env_installed w0)))
   \<and> ''/usr'' = QGIS_INSTALL_PATH
   \<and> sys_path (snd (main env_installed w0)) = [''/usr/apps/qgis/python/plugins'']"
proof -
  obtain w2 where i: "initialize_qgis env_installed (snd (print banner w0)) = (Inr (Some (QgsApp 0)), w2)"
    using initialize_qgis_installed
    by (cases "initialize_qgis env_installed (snd (print banner w0))") simp
  have m: "SetPrefixPath ''/usr'' True \<in> set (new_events w0 (snd (main env_installed w0)))"
    by (simp add: main_new_events_started [OF i] init_calls_def)
  have s: "sys_path (snd (main env_installed w0)) = [''/usr/apps/qgis/python/plugins'']"
    using main_started [OF i] initialize_qgis_Some [OF i]
    by (simp add: print_banner w0_def plugins_path_def)
  from install_path_is_hard_coded [of "''/usr''" True w0 env_installed] m s show ?thesis
    by simp
qed

end
